theory Spec2Isabelle
  imports Complex_Main
begin

section \<open>JavaScript numbers\<close>

text \<open>
  The simulation computes on JavaScript \<open>number\<close>s. The model keeps their special values
  and computes exactly on the finite ones: \<open>Fin r\<close> is the finite number \<open>r\<close>,
  \<open>PosInf\<close> and \<open>NegInf\<close> are \<open>Infinity\<close> and \<open>-Infinity\<close>, and \<open>NaN\<close> is
  \<open>NaN\<close>. The operations follow IEEE 754 on the special values (\<open>0/0\<close>,
  \<open>Infinity - Infinity\<close> and \<open>0 * Infinity\<close> are \<open>NaN\<close>, every comparison with
  \<open>NaN\<close> is false). Rounding, overflow and the sign of zero are not modelled: a finite
  operation returns the exact real result, and a zero divisor counts as \<open>+0\<close> (every
  divisor of the program is a sum of squares, a square root or a positive loop bound).
\<close>

datatype jsnum = Fin real | PosInf | NegInf | NaN

fun js_neg :: "jsnum \<Rightarrow> jsnum" where
  "js_neg (Fin a) = Fin (- a)"
| "js_neg PosInf = NegInf"
| "js_neg NegInf = PosInf"
| "js_neg NaN = NaN"

fun js_add :: "jsnum \<Rightarrow> jsnum \<Rightarrow> jsnum" where
  "js_add (Fin a) (Fin b) = Fin (a + b)"
| "js_add NaN _ = NaN"
| "js_add _ NaN = NaN"
| "js_add PosInf NegInf = NaN"
| "js_add NegInf PosInf = NaN"
| "js_add PosInf _ = PosInf"
| "js_add _ PosInf = PosInf"
| "js_add NegInf _ = NegInf"
| "js_add _ NegInf = NegInf"

definition js_sub :: "jsnum \<Rightarrow> jsnum \<Rightarrow> jsnum" where
  "js_sub a b = js_add a (js_neg b)"

text \<open>The sign of a product or quotient with an infinite operand.\<close>

definition signed_inf :: "bool \<Rightarrow> jsnum" where
  "signed_inf positive = (if positive then PosInf else NegInf)"

fun js_mul :: "jsnum \<Rightarrow> jsnum \<Rightarrow> jsnum" where
  "js_mul (Fin a) (Fin b) = Fin (a * b)"
| "js_mul NaN _ = NaN"
| "js_mul _ NaN = NaN"
| "js_mul (Fin a) PosInf = (if a = 0 then NaN else signed_inf (0 < a))"
| "js_mul (Fin a) NegInf = (if a = 0 then NaN else signed_inf (a < 0))"
| "js_mul PosInf (Fin b) = (if b = 0 then NaN else signed_inf (0 < b))"
| "js_mul NegInf (Fin b) = (if b = 0 then NaN else signed_inf (b < 0))"
| "js_mul PosInf PosInf = PosInf"
| "js_mul NegInf NegInf = PosInf"
| "js_mul PosInf NegInf = NegInf"
| "js_mul NegInf PosInf = NegInf"

fun js_div :: "jsnum \<Rightarrow> jsnum \<Rightarrow> jsnum" where
  "js_div (Fin a) (Fin b) =
     (if b = 0 then (if a = 0 then NaN else signed_inf (0 < a)) else Fin (a / b))"
| "js_div NaN _ = NaN"
| "js_div _ NaN = NaN"
| "js_div (Fin a) _ = Fin 0"
| "js_div PosInf (Fin b) = signed_inf (0 \<le> b)"
| "js_div NegInf (Fin b) = signed_inf (b < 0)"
| "js_div _ _ = NaN"

fun js_sqrt :: "jsnum \<Rightarrow> jsnum" where
  "js_sqrt (Fin a) = (if a < 0 then NaN else Fin (sqrt a))"
| "js_sqrt PosInf = PosInf"
| "js_sqrt NegInf = NaN"
| "js_sqrt NaN = NaN"

fun js_cos :: "jsnum \<Rightarrow> jsnum" where
  "js_cos (Fin a) = Fin (cos a)"
| "js_cos _ = NaN"

fun js_sin :: "jsnum \<Rightarrow> jsnum" where
  "js_sin (Fin a) = Fin (sin a)"
| "js_sin _ = NaN"

text \<open>\<open>a < b\<close>; \<open>a > b\<close> is \<open>js_lt b a\<close>.\<close>

fun js_lt :: "jsnum \<Rightarrow> jsnum \<Rightarrow> bool" where
  "js_lt (Fin a) (Fin b) = (a < b)"
| "js_lt NaN _ = False"
| "js_lt _ NaN = False"
| "js_lt _ NegInf = False"
| "js_lt PosInf _ = False"
| "js_lt NegInf _ = True"
| "js_lt _ PosInf = True"

text \<open>\<open>a === b\<close> on numbers: \<open>NaN\<close> equals nothing, itself included.\<close>

definition js_eq :: "jsnum \<Rightarrow> jsnum \<Rightarrow> bool" where
  "js_eq a b = (a \<noteq> NaN \<and> a = b)"

text \<open>\<open>Math.min\<close> and \<open>Math.max\<close> of two numbers: \<open>NaN\<close> if either is.\<close>

definition js_min :: "jsnum \<Rightarrow> jsnum \<Rightarrow> jsnum" where
  "js_min a b = (if a = NaN \<or> b = NaN then NaN else if js_lt b a then b else a)"

definition js_max :: "jsnum \<Rightarrow> jsnum \<Rightarrow> jsnum" where
  "js_max a b = (if a = NaN \<or> b = NaN then NaN else if js_lt a b then b else a)"

text \<open>\<open>a || d\<close> on a number \<open>a\<close>: zero and \<open>NaN\<close> are falsy.\<close>

definition js_or :: "jsnum \<Rightarrow> jsnum \<Rightarrow> jsnum" where
  "js_or a d = (if a = Fin 0 \<or> a = NaN then d else a)"

text \<open>The same on a count, which holds an integer.\<close>

definition int_or :: "int \<Rightarrow> int \<Rightarrow> int" where
  "int_or a d = (if a = 0 then d else a)"

definition is_finite :: "jsnum \<Rightarrow> bool" where
  "is_finite a = (case a of Fin _ \<Rightarrow> True | _ \<Rightarrow> False)"

section \<open>Vectors (src/utils/math.ts)\<close>

text \<open>
  Modelled from the spec: the type \<open>Vector2\<close> of the module \<open>../types\<close>, which is not
  among the sources; it is a pair of numbers \<open>(x, y)\<close>, as every use in \<open>math.ts\<close>
  shows. The fields \<open>x\<close> and \<open>y\<close> are \<open>vx\<close> and \<open>vy\<close> here.
\<close>

record Vector2 =
  vx :: jsnum
  vy :: jsnum

definition V2 :: "real \<Rightarrow> real \<Rightarrow> Vector2" where
  "V2 a b = \<lparr>vx = Fin a, vy = Fin b\<rparr>"

definition finite_vec :: "Vector2 \<Rightarrow> bool" where
  "finite_vec v = (is_finite (vx v) \<and> is_finite (vy v))"

definition add :: "Vector2 \<Rightarrow> Vector2 \<Rightarrow> Vector2" where
  "add v1 v2 = \<lparr>vx = js_add (vx v1) (vx v2), vy = js_add (vy v1) (vy v2)\<rparr>"

definition sub :: "Vector2 \<Rightarrow> Vector2 \<Rightarrow> Vector2" where
  "sub v1 v2 = \<lparr>vx = js_sub (vx v1) (vx v2), vy = js_sub (vy v1) (vy v2)\<rparr>"

definition mult :: "Vector2 \<Rightarrow> jsnum \<Rightarrow> Vector2" where
  "mult v s = \<lparr>vx = js_mul (vx v) s, vy = js_mul (vy v) s\<rparr>"

definition dot :: "Vector2 \<Rightarrow> Vector2 \<Rightarrow> jsnum" where
  "dot v1 v2 = js_add (js_mul (vx v1) (vx v2)) (js_mul (vy v1) (vy v2))"

definition mag :: "Vector2 \<Rightarrow> jsnum" where
  "mag v = js_sqrt (js_add (js_mul (vx v) (vx v)) (js_mul (vy v) (vy v)))"

definition normalize_vec :: "Vector2 \<Rightarrow> Vector2" where
  "normalize_vec v =
     (let m = mag v
      in if js_eq m (Fin 0) then \<lparr>vx = Fin 0, vy = Fin 0\<rparr>
         else \<lparr>vx = js_div (vx v) m, vy = js_div (vy v) m\<rparr>)"

definition rotatePoint :: "Vector2 \<Rightarrow> Vector2 \<Rightarrow> jsnum \<Rightarrow> Vector2" where
  "rotatePoint point center angle =
     (let c = js_cos angle;
          s = js_sin angle;
          dx = js_sub (vx point) (vx center);
          dy = js_sub (vy point) (vy center)
      in \<lparr>vx = js_add (vx center) (js_sub (js_mul dx c) (js_mul dy s)),
          vy = js_add (vy center) (js_add (js_mul dx s) (js_mul dy c))\<rparr>)"

section \<open>Boundary shapes\<close>

text \<open>
  The loops run \<open>i = 0, 1, ...\<close> while \<open>i < sides\<close>. A vertex count is an integer, so
  the indices are \<open>[0..<nat sides]\<close>: none when \<open>sides\<close> is zero or negative.
\<close>

definition generatePolygon :: "int \<Rightarrow> jsnum \<Rightarrow> Vector2 \<Rightarrow> jsnum \<Rightarrow> Vector2 list" where
  "generatePolygon sides radius center rotation =
     map (\<lambda>i. let angle = js_add (js_div (js_mul (js_mul (Fin (real i)) (Fin 2)) (Fin pi))
                                           (Fin (real_of_int sides))) rotation
               in \<lparr>vx = js_add (vx center) (js_mul radius (js_cos angle)),
                   vy = js_add (vy center) (js_mul radius (js_sin angle))\<rparr>)
         [0..<nat sides]"

definition generateStar ::
  "int \<Rightarrow> jsnum \<Rightarrow> jsnum \<Rightarrow> Vector2 \<Rightarrow> jsnum \<Rightarrow> Vector2 list" where
  "generateStar points outerRadius innerRadius center rotation =
     map (\<lambda>i. let angle = js_add (js_div (js_mul (Fin (real i)) (Fin pi))
                                           (Fin (real_of_int points))) rotation;
                   radius = (if i mod 2 = 0 then outerRadius else innerRadius)
               in \<lparr>vx = js_add (vx center) (js_mul radius (js_cos angle)),
                   vy = js_add (vy center) (js_mul radius (js_sin angle))\<rparr>)
         [0..<nat (points * 2)]"

text \<open>The hand-authored silhouettes of \<open>generateShape\<close>, in the order of its \<open>switch\<close>.\<close>

definition normalizedPoints :: "string \<Rightarrow> Vector2 list option" where
  "normalizedPoints type =
     (if type = ''house'' then
        Some [V2 0 (-1), V2 0.8 (-0.4), V2 0.8 1, V2 (-0.8) 1, V2 (-0.8) (-0.4)]
      else if type = ''skull'' then
        Some [V2 0 (-1), V2 0.7 (-0.7), V2 0.9 0, V2 0.5 0.5, V2 0.3 1,
              V2 (-0.3) 1, V2 (-0.5) 0.5, V2 (-0.9) 0, V2 (-0.7) (-0.7)]
      else if type = ''candy_cane'' then
        Some [V2 (-0.5) (-1), V2 0.5 (-1), V2 0.5 1, V2 (-0.2) 1,
              V2 (-0.2) (-0.4), V2 (-0.5) (-0.4)]
      else if type = ''tree'' then
        Some [V2 0 (-1), V2 0.4 (-0.4), V2 0.2 (-0.4), V2 0.6 0.2, V2 0.3 0.2,
              V2 0.7 1, V2 (-0.7) 1, V2 (-0.3) 0.2, V2 (-0.6) 0.2,
              V2 (-0.2) (-0.4), V2 (-0.4) (-0.4)]
      else if type = ''ghost'' then
        Some [V2 0 (-1), V2 0.8 (-0.5), V2 0.8 1, V2 0.4 0.8, V2 0 1,
              V2 (-0.4) 0.8, V2 (-0.8) 1, V2 (-0.8) (-0.5)]
      else if type = ''pumpkin'' then
        Some [V2 0 (-0.9), V2 0.1 (-1.1), V2 (-0.1) (-1.1), V2 0 (-0.9),
              V2 (-0.6) (-0.8), V2 (-0.9) (-0.3), V2 (-0.95) 0.3, V2 (-0.5) 0.9,
              V2 0.5 0.9, V2 0.95 0.3, V2 0.9 (-0.3), V2 0.6 (-0.8)]
      else None)"

definition generateShape ::
  "string \<Rightarrow> int \<Rightarrow> jsnum \<Rightarrow> Vector2 \<Rightarrow> jsnum \<Rightarrow> Vector2 list" where
  "generateShape type vertexCount radius center rotation =
     (if type \<in> set [''triangle'', ''square'', ''pentagon'', ''hexagon'', ''octagon''] then
        generatePolygon (int_or vertexCount 4) radius center rotation
      else if type = ''star'' then
        generateStar (int_or vertexCount 5) radius (js_mul radius (Fin 0.45)) center rotation
      else
        (case normalizedPoints type of
           None \<Rightarrow> generatePolygon 4 radius center rotation
         | Some ps \<Rightarrow> map (\<lambda>p. rotatePoint (mult p radius) center rotation) ps))"

section \<open>Distance from a point to a segment\<close>

record SegmentInfo =
  seg_dist :: jsnum
  seg_normal :: Vector2
  seg_closest :: Vector2

definition distPointToSegment :: "Vector2 \<Rightarrow> Vector2 \<Rightarrow> Vector2 \<Rightarrow> SegmentInfo" where
  "distPointToSegment p a b =
     (let ab = sub b a;
          ap = sub p a;
          proj = dot ap ab;
          abLenSq = dot ab ab;
          d = js_max (Fin 0) (js_min (Fin 1) (js_div proj abLenSq));
          closest = add a (mult ab d);
          distVec = sub p closest;
          distance = mag distVec;
          normal = normalize_vec distVec;
          normal' = (if js_eq distance (Fin 0)
                     then normalize_vec \<lparr>vx = js_neg (vy ab), vy = vx ab\<rparr>
                     else normal)
      in \<lparr>seg_dist = distance, seg_normal = normal', seg_closest = closest\<rparr>)"

section \<open>Simulation state\<close>

text \<open>
  Modelled from the spec: the types \<open>Ball\<close>, \<open>SimulationConfig\<close> and
  \<open>GlobalSettings\<close> of the module \<open>../types\<close>, which is not among the sources.
  \<open>Ball\<close> has the fields the Canvas gives a ball when it creates it (its \<open>id\<close> is
  \<open>ball_id\<close> here); \<open>SimulationConfig\<close> has the fields that \<open>updatePhysics\<close>
  reads, and \<open>GlobalSettings\<close> the four multipliers that \<open>App.tsx\<close> sets. The vertex
  count of a configuration is an integer, the canvas width and height are natural numbers,
  and every other number is a \<open>jsnum\<close>. \<open>SimState\<close> is the state the Canvas keeps
  between ticks.
\<close>

record Ball =
  ball_id :: string
  pos :: Vector2
  vel :: Vector2
  radius :: jsnum
  color :: string

record SimulationConfig =
  shapeType :: string
  vertexCount :: int
  gravity :: jsnum
  friction :: jsnum
  restitution :: jsnum
  rotationSpeed :: jsnum

record GlobalSettings =
  timeScale :: jsnum
  gravityMultiplier :: jsnum
  rotationMultiplier :: jsnum
  bouncinessMultiplier :: jsnum

record SimState =
  balls :: "Ball list"
  rotation :: jsnum

section \<open>One tick: \<open>updatePhysics\<close> (Canvas, segment-distance variant)\<close>

definition shapeRadiusOf :: "nat \<Rightarrow> nat \<Rightarrow> jsnum" where
  "shapeRadiusOf width height = js_mul (js_min (Fin (real width)) (Fin (real height))) (Fin 0.45)"

definition advanceRotation :: "SimulationConfig \<Rightarrow> GlobalSettings \<Rightarrow> jsnum \<Rightarrow> jsnum" where
  "advanceRotation config gs rot =
     js_add rot (js_mul (js_mul (js_or (rotationSpeed config) (Fin 0.005)) (rotationMultiplier gs))
                        (timeScale gs))"

text \<open>The factor of the friction line, \<open>1 - (config.friction || 0.001) * timeScale\<close>.\<close>

definition frictionFactor :: "SimulationConfig \<Rightarrow> GlobalSettings \<Rightarrow> jsnum" where
  "frictionFactor config gs =
     js_sub (Fin 1) (js_mul (js_or (friction config) (Fin 0.001)) (timeScale gs))"

text \<open>Gravity, friction and translation of one ball (the first three lines of the loop body).\<close>

definition integrate :: "SimulationConfig \<Rightarrow> GlobalSettings \<Rightarrow> Ball \<Rightarrow> Ball" where
  "integrate config gs ball =
     (let v1 = (vel ball)\<lparr>vy := js_add (vy (vel ball))
                  (js_mul (js_mul (gravity config) (gravityMultiplier gs)) (timeScale gs))\<rparr>;
          v2 = mult v1 (frictionFactor config gs);
          p = add (pos ball) (mult v2 (timeScale gs))
      in ball\<lparr>vel := v2, pos := p\<rparr>)"

text \<open>The body of the wall loop for the edge from \<open>p1\<close> to \<open>p2\<close>.\<close>

definition wallStep :: "jsnum \<Rightarrow> Vector2 \<Rightarrow> Vector2 \<Rightarrow> Ball \<Rightarrow> Ball" where
  "wallStep rest p1 p2 ball =
     (let info = distPointToSegment (pos ball) p1 p2;
          d = seg_dist info;
          normal = seg_normal info
      in if js_lt d (radius ball) then
           (let penetration = js_sub (radius ball) d;
                ball1 = ball\<lparr>pos := add (pos ball) (mult normal penetration)\<rparr>;
                velDotNormal = dot (vel ball1) normal
            in if js_lt velDotNormal (Fin 0) then
                 (let reflect = mult normal (js_mul (Fin 2) velDotNormal);
                      v1 = sub (vel ball1) (mult reflect (Fin 1));
                      v2 = mult v1 rest;
                      v3 = add v2 (mult normal (Fin 0.1))
                  in ball1\<lparr>vel := v3\<rparr>)
               else ball1)
         else ball)"

text \<open>The wall loop: every edge \<open>i\<close>, from vertex \<open>i\<close> to vertex \<open>(i + 1) % length\<close>.\<close>

definition wallCollide :: "jsnum \<Rightarrow> Vector2 list \<Rightarrow> Ball \<Rightarrow> Ball" where
  "wallCollide rest vs ball =
     fold (\<lambda>i b. wallStep rest (vs ! i) (vs ! ((i + 1) mod length vs)) b) [0..<length vs] ball"

text \<open>The body of the ball-to-ball loop for the pair \<open>(ballA, ballB)\<close>.\<close>

definition resolvePair :: "Ball \<Rightarrow> Ball \<Rightarrow> Ball \<times> Ball" where
  "resolvePair ballA ballB =
     (let distVec = sub (pos ballB) (pos ballA);
          distance = mag distVec;
          totalRadius = js_add (radius ballA) (radius ballB)
      in if js_lt distance totalRadius then
           (let overlap = js_sub totalRadius distance;
                correctionNormal = (if js_eq distance (Fin 0) then \<lparr>vx = Fin 1, vy = Fin 0\<rparr>
                                    else normalize_vec distVec);
                correctionA = mult correctionNormal (js_div (js_neg overlap) (Fin 2));
                correctionB = mult correctionNormal (js_div overlap (Fin 2));
                a1 = ballA\<lparr>pos := add (pos ballA) correctionA\<rparr>;
                b1 = ballB\<lparr>pos := add (pos ballB) correctionB\<rparr>;
                relativeVelocity = sub (vel b1) (vel a1);
                speedAlongNormal = dot relativeVelocity correctionNormal
            in if js_lt speedAlongNormal (Fin 0) then
                 (let v1n_scalar = dot (vel a1) correctionNormal;
                      v2n_scalar = dot (vel b1) correctionNormal;
                      v1n_vec = mult correctionNormal v1n_scalar;
                      v2n_vec = mult correctionNormal v2n_scalar;
                      v1t_vec = sub (vel a1) v1n_vec;
                      v2t_vec = sub (vel b1) v2n_vec
                  in (a1\<lparr>vel := add v1t_vec v2n_vec\<rparr>, b1\<lparr>vel := add v2t_vec v1n_vec\<rparr>))
               else (a1, b1))
         else (ballA, ballB))"

text \<open>The two nested loops over \<open>i < j\<close>; the balls are updated in place.\<close>

definition pairStep :: "nat \<Rightarrow> nat \<Rightarrow> Ball list \<Rightarrow> Ball list" where
  "pairStep i j bs = (case resolvePair (bs ! i) (bs ! j) of (a, b) \<Rightarrow> bs[i := a, j := b])"

definition pairPhase :: "Ball list \<Rightarrow> Ball list" where
  "pairPhase bs =
     fold (\<lambda>i bs1. fold (\<lambda>j bs2. pairStep i j bs2) [i + 1..<length bs] bs1) [0..<length bs] bs"

text \<open>The safety bounds reset, for a ball, with the margin added to the shape radius.\<close>

definition safetyReset :: "jsnum \<Rightarrow> jsnum \<Rightarrow> Ball \<Rightarrow> Ball" where
  "safetyReset shapeRadius margin ball =
     (if js_lt (js_add shapeRadius margin) (mag (pos ball))
      then ball\<lparr>pos := \<lparr>vx = Fin 0, vy = Fin 0\<rparr>, vel := \<lparr>vx = Fin 0, vy = Fin 0\<rparr>\<rparr>
      else ball)"

text \<open>The state after the integration and the two collision phases of a tick.\<close>

definition collisionPhases ::
  "SimulationConfig \<Rightarrow> GlobalSettings \<Rightarrow> nat \<Rightarrow> nat \<Rightarrow> SimState \<Rightarrow> SimState" where
  "collisionPhases config gs width height state =
     (let shapeRadius = shapeRadiusOf width height;
          rot = advanceRotation config gs (rotation state);
          localVertices = generateShape (shapeType config) (vertexCount config) shapeRadius
                            \<lparr>vx = Fin 0, vy = Fin 0\<rparr> rot;
          rest = js_mul (restitution config) (bouncinessMultiplier gs);
          bs1 = map (\<lambda>ball. wallCollide rest localVertices (integrate config gs ball))
                    (balls state)
      in \<lparr>balls = pairPhase bs1, rotation = rot\<rparr>)"

definition updatePhysics ::
  "SimulationConfig \<Rightarrow> GlobalSettings \<Rightarrow> nat \<Rightarrow> nat \<Rightarrow> SimState \<Rightarrow> SimState" where
  "updatePhysics config gs width height state =
     (let s1 = collisionPhases config gs width height state
      in s1\<lparr>balls := map (safetyReset (shapeRadiusOf width height) (Fin 200)) (balls s1)\<rparr>)"

section \<open>One tick: \<open>updatePhysics\<close> (Canvas, edge-normal variant)\<close>

text \<open>
  The second Canvas component of the repository builds its boundary from \<open>generateStar\<close>
  and \<open>generatePolygon\<close> directly, tests each edge as a half-plane, and resets beyond a
  margin of 100. Its integration and ball-to-ball lines are those of the first.
\<close>

definition legacyVertices :: "SimulationConfig \<Rightarrow> jsnum \<Rightarrow> jsnum \<Rightarrow> Vector2 list" where
  "legacyVertices config shapeRadius rot =
     (if shapeType config = ''star'' then
        generateStar (int_or (vertexCount config) 5) shapeRadius (js_mul shapeRadius (Fin 0.4))
          \<lparr>vx = Fin 0, vy = Fin 0\<rparr> rot
      else
        generatePolygon (int_or (vertexCount config) 4) shapeRadius \<lparr>vx = Fin 0, vy = Fin 0\<rparr> rot)"

definition legacyWallStep :: "jsnum \<Rightarrow> Vector2 \<Rightarrow> Vector2 \<Rightarrow> Ball \<Rightarrow> Ball" where
  "legacyWallStep rest p1 p2 ball =
     (let edge = sub p2 p1;
          n0 = normalize_vec \<lparr>vx = js_neg (vy edge), vy = vx edge\<rparr>;
          edgeNormal = (if js_lt (dot n0 (mult p1 (Fin (- 1)))) (Fin 0)
                        then \<lparr>vx = js_mul (vx n0) (Fin (- 1)), vy = js_mul (vy n0) (Fin (- 1))\<rparr>
                        else n0);
          relPos = sub (pos ball) p1;
          d = dot relPos edgeNormal
      in if js_lt d (radius ball) then
           (let penetration = js_sub (radius ball) d;
                ball1 = ball\<lparr>pos := add (pos ball) (mult edgeNormal penetration)\<rparr>;
                velDotNormal = dot (vel ball1) edgeNormal
            in if js_lt velDotNormal (Fin 0) then
                 (let reflect = mult edgeNormal (js_mul (Fin 2) velDotNormal);
                      v1 = sub (vel ball1) (mult reflect (Fin 1));
                      v2 = mult v1 rest;
                      v3 = add v2 (mult edgeNormal (Fin 0.1))
                  in ball1\<lparr>vel := v3\<rparr>)
               else ball1)
         else ball)"

definition legacyWallCollide :: "jsnum \<Rightarrow> Vector2 list \<Rightarrow> Ball \<Rightarrow> Ball" where
  "legacyWallCollide rest vs ball =
     fold (\<lambda>i b. legacyWallStep rest (vs ! i) (vs ! ((i + 1) mod length vs)) b)
          [0..<length vs] ball"

definition legacyCollisionPhases ::
  "SimulationConfig \<Rightarrow> GlobalSettings \<Rightarrow> nat \<Rightarrow> nat \<Rightarrow> SimState \<Rightarrow> SimState" where
  "legacyCollisionPhases config gs width height state =
     (let shapeRadius = shapeRadiusOf width height;
          rot = advanceRotation config gs (rotation state);
          localVertices = legacyVertices config shapeRadius rot;
          rest = js_mul (restitution config) (bouncinessMultiplier gs);
          bs1 = map (\<lambda>ball. legacyWallCollide rest localVertices (integrate config gs ball))
                    (balls state)
      in \<lparr>balls = pairPhase bs1, rotation = rot\<rparr>)"

definition legacyUpdatePhysics ::
  "SimulationConfig \<Rightarrow> GlobalSettings \<Rightarrow> nat \<Rightarrow> nat \<Rightarrow> SimState \<Rightarrow> SimState" where
  "legacyUpdatePhysics config gs width height state =
     (let s1 = legacyCollisionPhases config gs width height state
      in s1\<lparr>balls := map (safetyReset (shapeRadiusOf width height) (Fin 100)) (balls s1)\<rparr>)"

section \<open>Notions used by the statements\<close>

text \<open>
  The collision normal that \<open>resolvePair\<close> computes for an overlapping pair: the unit vector
  from \<open>ballA\<close> to \<open>ballB\<close>, or \<open>(1, 0)\<close> when the centres coincide.
\<close>

definition correctionNormalOf :: "Ball \<Rightarrow> Ball \<Rightarrow> Vector2" where
  "correctionNormalOf ballA ballB =
     (let distVec = sub (pos ballB) (pos ballA)
      in if js_eq (mag distVec) (Fin 0) then \<lparr>vx = Fin 1, vy = Fin 0\<rparr>
         else normalize_vec distVec)"

text \<open>Two overlapping balls approaching head-on, and two meeting at a glancing angle.\<close>

definition headOnA :: Ball where
  "headOnA = \<lparr>ball_id = ''1-0'', pos = V2 0 0, vel = V2 3 0, radius = Fin 10, color = ''#58a6ff''\<rparr>"

definition headOnB :: Ball where
  "headOnB = \<lparr>ball_id = ''1-1'', pos = V2 16 0, vel = V2 (- 3) 0, radius = Fin 10, color = ''#39d353''\<rparr>"

definition glancingA :: Ball where
  "glancingA = \<lparr>ball_id = ''2-0'', pos = V2 0 0, vel = V2 3 1, radius = Fin 10, color = ''#58a6ff''\<rparr>"

definition glancingB :: Ball where
  "glancingB = \<lparr>ball_id = ''2-1'', pos = V2 0 12, vel = V2 (- 2) (- 5), radius = Fin 10, color = ''#39d353''\<rparr>"





text \<open>
  The house silhouette on a 1000 by 1000 canvas at rotation 0, and two balls well inside it.
\<close>

definition houseLoop :: "Vector2 list" where
  "houseLoop = generateShape ''house'' 5 (Fin 450) \<lparr>vx = Fin 0, vy = Fin 0\<rparr> (Fin 0)"

definition restingBalls :: "Ball list" where
  "restingBalls =
     [\<lparr>ball_id = ''4-0'', pos = V2 0 0, vel = V2 0 0, radius = Fin 10, color = ''#58a6ff''\<rparr>,
      \<lparr>ball_id = ''4-1'', pos = V2 100 200, vel = V2 1 (- 2), radius = Fin 10, color = ''#39d353''\<rparr>]"

text \<open>
  Configurations and global settings: the defaults of the application, the speed slider at
  its maximum of 3, the rotation slider at its minimum of 0, and the settings of a paused
  application (\<open>timeScale = 0\<close>).
\<close>

definition houseConfig :: SimulationConfig where
  "houseConfig = \<lparr>shapeType = ''house'', vertexCount = 5, gravity = Fin 0.2, friction = Fin 0.001,
                   restitution = Fin 0.8, rotationSpeed = Fin 0.005\<rparr>"

definition squareConfig :: SimulationConfig where
  "squareConfig = \<lparr>shapeType = ''square'', vertexCount = 4, gravity = Fin 0.3, friction = Fin 0.001,
                    restitution = Fin 0.8, rotationSpeed = Fin 0.005\<rparr>"

definition stickyConfig :: SimulationConfig where
  "stickyConfig = \<lparr>shapeType = ''square'', vertexCount = 4, gravity = Fin 0, friction = Fin 0.5,
                    restitution = Fin 0.8, rotationSpeed = Fin 0.005\<rparr>"

definition defaultSettings :: GlobalSettings where
  "defaultSettings = \<lparr>timeScale = Fin 1, gravityMultiplier = Fin 1, rotationMultiplier = Fin 1,
                       bouncinessMultiplier = Fin 1\<rparr>"

definition fastSettings :: GlobalSettings where
  "fastSettings = \<lparr>timeScale = Fin 3, gravityMultiplier = Fin 1, rotationMultiplier = Fin 1,
                    bouncinessMultiplier = Fin 1\<rparr>"

definition stillSettings :: GlobalSettings where
  "stillSettings = \<lparr>timeScale = Fin 1, gravityMultiplier = Fin 1, rotationMultiplier = Fin 0,
                     bouncinessMultiplier = Fin 1\<rparr>"


text \<open>
  A ball sliding to the right; a state with one ball far outside the boundary and one at the
  centre; a state with the two overlapping balls; a state with the two balls at rest.
\<close>

definition slidingBall :: Ball where
  "slidingBall = \<lparr>ball_id = ''5-0'', pos = V2 0 0, vel = V2 2 0, radius = Fin 10, color = ''#ff7b72''\<rparr>"

definition strayState :: SimState where
  "strayState =
     \<lparr>balls = [\<lparr>ball_id = ''6-0'', pos = V2 5000 0, vel = V2 7 (- 3), radius = Fin 10, color = ''#58a6ff''\<rparr>,
               \<lparr>ball_id = ''6-1'', pos = V2 0 0, vel = V2 0 0, radius = Fin 10, color = ''#39d353''\<rparr>],
      rotation = Fin 0\<rparr>"



text \<open>
  A ball whose position has a \<open>NaN\<close> coordinate, and a ball whose position has an
  infinite coordinate and no \<open>NaN\<close> coordinate.
\<close>

definition nan_position :: "Ball \<Rightarrow> bool" where
  "nan_position ball = (vx (pos ball) = NaN \<or> vy (pos ball) = NaN)"

definition infinite_position :: "Ball \<Rightarrow> bool" where
  "infinite_position ball =
     (\<not> nan_position ball \<and> (\<not> is_finite (vx (pos ball)) \<or> \<not> is_finite (vy (pos ball))))"

text \<open>A ball with finite position, velocity and radius.\<close>

definition finite_ball :: "Ball \<Rightarrow> bool" where
  "finite_ball ball = (finite_vec (pos ball) \<and> finite_vec (vel ball) \<and> is_finite (radius ball))"

text \<open>
  A star configuration; the house configuration with a gravity that is not a number, as a
  configuration parsed without validation can have; a state with one ball at rest in the
  centre, and that ball after a tick under the broken configuration.
\<close>

definition starConfig :: SimulationConfig where
  "starConfig = \<lparr>shapeType = ''star'', vertexCount = 5, gravity = Fin 0.2, friction = Fin 0.001,
                  restitution = Fin 0.9, rotationSpeed = Fin 0.01\<rparr>"

definition brokenConfig :: SimulationConfig where
  "brokenConfig = \<lparr>shapeType = ''house'', vertexCount = 5, gravity = NaN, friction = Fin 0.001,
                    restitution = Fin 0.8, rotationSpeed = Fin 0.005\<rparr>"

definition centredState :: SimState where
  "centredState =
     \<lparr>balls = [\<lparr>ball_id = ''7-0'', pos = V2 0 0, vel = V2 0 0, radius = Fin 10, color = ''#a371f7''\<rparr>],
      rotation = Fin 0\<rparr>"

definition lostBall :: Ball where
  "lostBall = \<lparr>ball_id = ''7-0'', pos = \<lparr>vx = Fin 0, vy = NaN\<rparr>, vel = \<lparr>vx = Fin 0, vy = NaN\<rparr>,
                radius = Fin 10, color = ''#a371f7''\<rparr>"

text \<open>
  A state that holds the ball with the \<open>NaN\<close> position beside a moving ball, and a ball
  that has escaped to infinity.
\<close>

definition lostState :: SimState where
  "lostState =
     \<lparr>balls = [\<lparr>ball_id = ''7-1'', pos = V2 0 0, vel = V2 1 0, radius = Fin 10, color = ''#58a6ff''\<rparr>,
               lostBall],
      rotation = Fin 0\<rparr>"

definition escapedBall :: Ball where
  "escapedBall = \<lparr>ball_id = ''8-0'', pos = \<lparr>vx = PosInf, vy = Fin 120\<rparr>,
                   vel = \<lparr>vx = PosInf, vy = Fin 3\<rparr>, radius = Fin 10, color = ''#f1e05a''\<rparr>"

section \<open>Finite numbers and vectors\<close>

lemma is_finite_iff: "is_finite a \<longleftrightarrow> (\<exists>r. a = Fin r)"
  by (cases a) (simp_all add: is_finite_def)

lemma finite_vec_iff: "finite_vec v \<longleftrightarrow> (\<exists>a b. v = V2 a b)"
proof
  assume "finite_vec v"
  then obtain a b where "vx v = Fin a" "vy v = Fin b"
    by (auto simp: finite_vec_def is_finite_iff)
  then have "v = V2 a b" by (simp add: V2_def)
  then show "\<exists>a b. v = V2 a b" by blast
next
  assume "\<exists>a b. v = V2 a b"
  then show "finite_vec v" by (auto simp: finite_vec_def is_finite_def V2_def)
qed

lemma js_sub_Fin [simp]: "js_sub (Fin a) (Fin b) = Fin (a - b)"
  by (simp add: js_sub_def)

lemma js_eq_Fin [simp]: "js_eq (Fin a) (Fin b) = (a = b)"
  by (simp add: js_eq_def)

lemma V2_eq_iff [simp]: "V2 a b = V2 c d \<longleftrightarrow> a = c \<and> b = d"
  by (simp add: V2_def)

lemma V2_sel [simp]: "vx (V2 a b) = Fin a" "vy (V2 a b) = Fin b"
  by (simp_all add: V2_def)

lemma add_V2 [simp]: "add (V2 a b) (V2 c d) = V2 (a + c) (b + d)"
  by (simp add: add_def V2_def)

lemma sub_V2 [simp]: "sub (V2 a b) (V2 c d) = V2 (a - c) (b - d)"
  by (simp add: sub_def V2_def)

lemma mult_V2 [simp]: "mult (V2 a b) (Fin s) = V2 (a * s) (b * s)"
  by (simp add: mult_def V2_def)

lemma dot_V2 [simp]: "dot (V2 a b) (V2 c d) = Fin (a * c + b * d)"
  by (simp add: dot_def V2_def)

lemma mag_V2 [simp]: "mag (V2 a b) = Fin (sqrt (a * a + b * b))"
  by (simp add: mag_def V2_def not_less)

lemma sqrt_sumsq_eq_0 [simp]: "sqrt (a * a + b * b) = 0 \<longleftrightarrow> a = 0 \<and> b = 0"
  by (simp add: real_sqrt_eq_zero_cancel_iff sum_squares_eq_zero_iff)

lemma normalize_V2:
  "normalize_vec (V2 a b) =
     (if a = 0 \<and> b = 0 then V2 0 0
      else V2 (a / sqrt (a * a + b * b)) (b / sqrt (a * a + b * b)))"
  by (simp add: normalize_vec_def Let_def V2_def[symmetric])

lemma mult_one [simp]: "mult v (Fin 1) = v"
proof -
  have "js_mul a (Fin 1) = a" for a
    by (cases a) (simp_all add: signed_inf_def)
  then show ?thesis by (simp add: mult_def)
qed

lemma js_lt_mag_finite: "js_lt (mag v) t \<Longrightarrow> finite_vec v"
  apply (cases "vx v"; cases "vy v"; cases t)
  apply (simp_all add: mag_def finite_vec_def is_finite_def signed_inf_def split: if_splits)
  done

lemma finite_vec_V2 [simp]: "finite_vec (V2 a b)"
  by (simp add: finite_vec_iff)

lemma sqrt_eqI: "0 \<le> r \<Longrightarrow> r * r = a \<Longrightarrow> sqrt a = r"
  using real_sqrt_abs2 [of r] by (simp add: power2_eq_square)

lemma unit_quotients:
  fixes a b :: real
  assumes "a \<noteq> 0 \<or> b \<noteq> 0"
  shows "(a / sqrt (a * a + b * b)) * (a / sqrt (a * a + b * b))
       + (b / sqrt (a * a + b * b)) * (b / sqrt (a * a + b * b)) = 1"
proof -
  define m where "m = sqrt (a * a + b * b)"
  have nz: "a * a + b * b \<noteq> 0" using assms by (simp add: sum_squares_eq_zero_iff)
  have "0 \<le> a * a + b * b" by simp
  then have mm: "m * m = a * a + b * b" by (simp add: m_def)
  have "(a / m) * (a / m) + (b / m) * (b / m) = (a * a + b * b) / (m * m)"
    by (simp add: add_divide_distrib)
  also have "\<dots> = 1" using nz by (simp add: mm)
  finally show ?thesis by (simp add: m_def)
qed

lemma js_min_Fin [simp]: "js_min (Fin a) (Fin b) = Fin (min a b)"
  by (simp add: js_min_def min_def)

lemma js_max_Fin [simp]: "js_max (Fin a) (Fin b) = Fin (max a b)"
  by (simp add: js_max_def max_def)

lemma js_mul_NaN [simp]: "js_mul a NaN = NaN"
  by (cases a) simp_all

lemma js_add_NaN [simp]: "js_add a NaN = NaN"
  by (cases a) simp_all

lemma mult_NaN [simp]: "mult v NaN = \<lparr>vx = NaN, vy = NaN\<rparr>"
  by (simp add: mult_def)

lemma sqrt_less_iff_sq: "0 \<le> y \<Longrightarrow> sqrt x < y \<longleftrightarrow> x < y * y"
  using real_sqrt_less_iff [of x "y * y"] by simp

section \<open>Ball-to-ball response\<close>

lemma correctionNormal_finite:
  assumes "js_lt (mag (sub (pos a) (pos b))) t"
  shows "\<exists>nx ny. (if js_eq (mag (sub (pos a) (pos b))) (Fin 0) then \<lparr>vx = Fin 1, vy = Fin 0\<rparr>
         else normalize_vec (sub (pos a) (pos b))) = V2 nx ny"
proof -
  from assms have "finite_vec (sub (pos a) (pos b))" by (rule js_lt_mag_finite)
  then obtain dx dy where d: "sub (pos a) (pos b) = V2 dx dy"
    by (auto simp: finite_vec_iff)
  show ?thesis
    by (simp add: d normalize_V2) (simp add: V2_def)
qed

lemma correctionNormal_unit:
  assumes "js_lt (mag (sub (pos b) (pos a))) t"
  shows "\<exists>nx ny. correctionNormalOf a b = V2 nx ny \<and> nx * nx + ny * ny = 1"
proof -
  from assms have "finite_vec (sub (pos b) (pos a))" by (rule js_lt_mag_finite)
  then obtain dx dy where d: "sub (pos b) (pos a) = V2 dx dy"
    by (auto simp: finite_vec_iff)
  show ?thesis
  proof (cases "dx = 0 \<and> dy = 0")
    case True
    then have "correctionNormalOf a b = V2 1 0"
      by (simp add: correctionNormalOf_def d)
    then show ?thesis by simp
  next
    case False
    then have "correctionNormalOf a b
        = V2 (dx / sqrt (dx * dx + dy * dy)) (dy / sqrt (dx * dx + dy * dy))"
      by (auto simp add: correctionNormalOf_def d normalize_V2)
    moreover have "dx \<noteq> 0 \<or> dy \<noteq> 0" using False by blast
    ultimately show ?thesis using unit_quotients by blast
  qed
qed

lemma resolvePair_swap_vel:
  assumes "js_lt (mag (sub (pos ballB) (pos ballA))) (js_add (radius ballA) (radius ballB))"
    and "js_lt (dot (sub (vel ballB) (vel ballA)) (correctionNormalOf ballA ballB)) (Fin 0)"
  shows "vel (fst (resolvePair ballA ballB)) =
           add (sub (vel ballA) (mult (correctionNormalOf ballA ballB)
                                      (dot (vel ballA) (correctionNormalOf ballA ballB))))
               (mult (correctionNormalOf ballA ballB)
                     (dot (vel ballB) (correctionNormalOf ballA ballB)))"
    and "vel (snd (resolvePair ballA ballB)) =
           add (sub (vel ballB) (mult (correctionNormalOf ballA ballB)
                                      (dot (vel ballB) (correctionNormalOf ballA ballB))))
               (mult (correctionNormalOf ballA ballB)
                     (dot (vel ballA) (correctionNormalOf ballA ballB)))"
  using assms by (simp_all add: resolvePair_def correctionNormalOf_def Let_def)

lemma swap_algebra:
  fixes nx ny :: real
  assumes u: "nx * nx + ny * ny = 1"
  shows "(ax - nx * (ax * nx + ay * ny) + nx * (bx * nx + by * ny)) * nx
       + (ay - ny * (ax * nx + ay * ny) + ny * (bx * nx + by * ny)) * ny
       = bx * nx + by * ny"
proof -
  have "(ax - nx * (ax * nx + ay * ny) + nx * (bx * nx + by * ny)) * nx
       + (ay - ny * (ax * nx + ay * ny) + ny * (bx * nx + by * ny)) * ny
       = (ax * nx + ay * ny) - (ax * nx + ay * ny) * (nx * nx + ny * ny)
         + (bx * nx + by * ny) * (nx * nx + ny * ny)"
    by (simp add: algebra_simps)
  then show ?thesis by (simp add: u)
qed

text \<open>
  Claim C10. The ball-to-ball response conserves the momentum of the pair: with finite
  velocities, the sum of the two velocities after \<open>resolvePair\<close> is their sum before it.
  This holds on every branch; the normal-component swap is the only one that changes a
  velocity.
\<close>

theorem resolvePair_momentum:
  assumes "finite_vec (vel ballA)" and "finite_vec (vel ballB)"
  shows "add (vel (fst (resolvePair ballA ballB))) (vel (snd (resolvePair ballA ballB)))
         = add (vel ballA) (vel ballB)"
proof -
  obtain ax ay bx "by" where va: "vel ballA = V2 ax ay" and vb: "vel ballB = V2 bx by"
    using assms by (auto simp: finite_vec_iff)
  show ?thesis
  proof (cases "js_lt (mag (sub (pos ballB) (pos ballA))) (js_add (radius ballA) (radius ballB))")
    case False
    then show ?thesis by (simp add: resolvePair_def Let_def)
  next
    case True
    from correctionNormal_finite[OF True] obtain nx ny where
      n: "(if js_eq (mag (sub (pos ballB) (pos ballA))) (Fin 0) then \<lparr>vx = Fin 1, vy = Fin 0\<rparr>
         else normalize_vec (sub (pos ballB) (pos ballA))) = V2 nx ny" by blast
    show ?thesis
      using True by (simp add: resolvePair_def Let_def n va vb del: V2_eq_iff) 
  qed
qed

theorem resolvePair_momentum_witness:
  "finite_vec (vel glancingA) \<and> finite_vec (vel glancingB)
   \<and> vel (fst (resolvePair glancingA glancingB)) = V2 3 (- 5)
   \<and> vel (snd (resolvePair glancingA glancingB)) = V2 (- 2) 1
   \<and> add (vel (fst (resolvePair glancingA glancingB))) (vel (snd (resolvePair glancingA glancingB)))
       = V2 1 (- 4)"
proof -
  have r: "sqrt 144 = 12" by (rule sqrt_eqI) simp_all
  have f: "finite_vec (vel glancingA)" "finite_vec (vel glancingB)"
    by (simp_all add: glancingA_def glancingB_def)
  have n: "correctionNormalOf glancingA glancingB = V2 0 1"
    by (simp add: correctionNormalOf_def glancingA_def glancingB_def normalize_V2 r)
  have ov: "js_lt (mag (sub (pos glancingB) (pos glancingA))) (js_add (radius glancingA) (radius glancingB))"
    by (simp add: glancingA_def glancingB_def r)
  have ap: "js_lt (dot (sub (vel glancingB) (vel glancingA)) (correctionNormalOf glancingA glancingB)) (Fin 0)"
    by (simp add: n) (simp add: glancingA_def glancingB_def)
  have "vel (fst (resolvePair glancingA glancingB)) = V2 3 (- 5)"
       "vel (snd (resolvePair glancingA glancingB)) = V2 (- 2) 1"
    by (simp_all add: resolvePair_swap_vel[OF ov ap] n) (simp_all add: glancingA_def glancingB_def)
  moreover have "add (vel (fst (resolvePair glancingA glancingB))) (vel (snd (resolvePair glancingA glancingB)))
       = V2 1 (- 4)"
    using resolvePair_momentum [OF f] by (simp add: glancingA_def glancingB_def)
  ultimately show ?thesis using f by simp
qed

text \<open>
  Claim C6. For an overlapping pair with finite velocities that approaches along the collision
  normal \<open>n\<close>, \<open>resolvePair\<close> swaps the normal components of the two velocities and
  keeps each tangential component; two balls that approach head-on with the velocities
  \<open>s * n\<close> and \<open>- s * n\<close> leave with each other's velocity.
\<close>

theorem resolvePair_exchange:
  assumes fa: "finite_vec (vel ballA)" and fb: "finite_vec (vel ballB)"
    and ov: "js_lt (mag (sub (pos ballB) (pos ballA))) (js_add (radius ballA) (radius ballB))"
    and ap: "js_lt (dot (sub (vel ballB) (vel ballA)) (correctionNormalOf ballA ballB)) (Fin 0)"
  shows "(let n = correctionNormalOf ballA ballB;
              a' = fst (resolvePair ballA ballB);
              b' = snd (resolvePair ballA ballB)
          in dot (vel a') n = dot (vel ballB) n
           \<and> dot (vel b') n = dot (vel ballA) n
           \<and> sub (vel a') (mult n (dot (vel a') n)) = sub (vel ballA) (mult n (dot (vel ballA) n))
           \<and> sub (vel b') (mult n (dot (vel b') n)) = sub (vel ballB) (mult n (dot (vel ballB) n))
           \<and> (\<forall>s. vel ballA = mult n (Fin s) \<and> vel ballB = mult n (Fin (- s))
                  \<longrightarrow> vel a' = vel ballB \<and> vel b' = vel ballA))"
proof -
  obtain ax ay bx "by" where va: "vel ballA = V2 ax ay" and vb: "vel ballB = V2 bx by"
    using fa fb by (auto simp: finite_vec_iff)
  obtain nx ny where n: "correctionNormalOf ballA ballB = V2 nx ny"
    and u: "nx * nx + ny * ny = 1"
    using correctionNormal_unit[OF ov] by blast
  note sw = resolvePair_swap_vel[OF ov ap, unfolded n va vb]
  have dots: "dot (vel (fst (resolvePair ballA ballB))) (V2 nx ny) = Fin (bx * nx + by * ny)"
    "dot (vel (snd (resolvePair ballA ballB))) (V2 nx ny) = Fin (ax * nx + ay * ny)"
    using swap_algebra[OF u, of ax ay bx "by"] swap_algebra[OF u, of bx "by" ax ay]
    by (simp_all add: sw)
  have tang: 
    "sub (vel (fst (resolvePair ballA ballB))) (mult (V2 nx ny) (Fin (bx * nx + by * ny)))
       = sub (V2 ax ay) (mult (V2 nx ny) (Fin (ax * nx + ay * ny)))"
    "sub (vel (snd (resolvePair ballA ballB))) (mult (V2 nx ny) (Fin (ax * nx + ay * ny)))
       = sub (V2 bx by) (mult (V2 nx ny) (Fin (bx * nx + by * ny)))"
    by (simp_all add: sw)
  have head: "vel (fst (resolvePair ballA ballB)) = V2 bx by \<and> vel (snd (resolvePair ballA ballB)) = V2 ax ay"
    if "V2 ax ay = mult (V2 nx ny) (Fin s)" "V2 bx by = mult (V2 nx ny) (Fin (- s))" for s
  proof -
    from that have e: "ax = nx * s" "ay = ny * s" "bx = - (nx * s)" "by = - (ny * s)" by simp_all
    have "ax * nx + ay * ny = s * (nx * nx + ny * ny)"
         "bx * nx + by * ny = - s * (nx * nx + ny * ny)"
      by (simp_all add: e algebra_simps)
    then have dA: "ax * nx + ay * ny = s" and dB: "bx * nx + by * ny = - s"
      by (simp_all add: u)
    have "vel (fst (resolvePair ballA ballB)) = V2 (ax - nx * s + nx * (- s)) (ay - ny * s + ny * (- s))"
         "vel (snd (resolvePair ballA ballB)) = V2 (bx - nx * (- s) + nx * s) (by - ny * (- s) + ny * s)"
      by (simp_all add: sw dA dB)
    then show ?thesis by (simp add: e)
  qed
  show ?thesis
    unfolding Let_def n va vb using dots tang head by (simp del: V2_eq_iff)
qed

theorem resolvePair_exchange_witness:
  "finite_vec (vel headOnA) \<and> finite_vec (vel headOnB)
   \<and> js_lt (mag (sub (pos headOnB) (pos headOnA))) (js_add (radius headOnA) (radius headOnB))
   \<and> js_lt (dot (sub (vel headOnB) (vel headOnA)) (correctionNormalOf headOnA headOnB)) (Fin 0)
   \<and> vel headOnA = mult (correctionNormalOf headOnA headOnB) (Fin 3)
   \<and> vel headOnB = mult (correctionNormalOf headOnA headOnB) (Fin (- 3))
   \<and> vel (fst (resolvePair headOnA headOnB)) = V2 (- 3) 0
   \<and> vel (snd (resolvePair headOnA headOnB)) = V2 3 0"
proof -
  have r: "sqrt 256 = 16" by (rule sqrt_eqI) simp_all
  have f: "finite_vec (vel headOnA)" "finite_vec (vel headOnB)"
    by (simp_all add: headOnA_def headOnB_def)
  have n: "correctionNormalOf headOnA headOnB = V2 1 0"
    by (simp add: correctionNormalOf_def headOnA_def headOnB_def normalize_V2 r)
  have ov: "js_lt (mag (sub (pos headOnB) (pos headOnA))) (js_add (radius headOnA) (radius headOnB))"
    by (simp add: headOnA_def headOnB_def r)
  have ap: "js_lt (dot (sub (vel headOnB) (vel headOnA)) (correctionNormalOf headOnA headOnB)) (Fin 0)"
    by (simp add: n) (simp add: headOnA_def headOnB_def)
  have v: "vel headOnA = mult (correctionNormalOf headOnA headOnB) (Fin 3)"
          "vel headOnB = mult (correctionNormalOf headOnA headOnB) (Fin (- 3))"
    by (simp_all add: n) (simp_all add: headOnA_def headOnB_def)
  have "vel (fst (resolvePair headOnA headOnB)) = vel headOnB
      \<and> vel (snd (resolvePair headOnA headOnB)) = vel headOnA"
    using resolvePair_exchange [OF f ov ap] v unfolding Let_def by blast
  then have "vel (fst (resolvePair headOnA headOnB)) = V2 (- 3) 0
      \<and> vel (snd (resolvePair headOnA headOnB)) = V2 3 0"
    by (simp add: headOnA_def headOnB_def)
  then show ?thesis using f ov ap v by simp
qed

section \<open>Distance to a segment\<close>

lemma distPointToSegment_degenerate:
  "distPointToSegment (V2 px py) (V2 ax ay) (V2 ax ay)
     = \<lparr>seg_dist = NaN, seg_normal = \<lparr>vx = NaN, vy = NaN\<rparr>, seg_closest = \<lparr>vx = NaN, vy = NaN\<rparr>\<rparr>"
  by (simp add: distPointToSegment_def Let_def js_min_def js_max_def)
     (simp add: add_def sub_def mag_def normalize_vec_def js_sub_def js_eq_def)







lemma seg_dist_V2:
  assumes "ax \<noteq> bx \<or> ay \<noteq> by"
  shows "seg_dist (distPointToSegment (V2 px py) (V2 ax ay) (V2 bx by))
     = (let t = max 0 (min 1 (((px - ax) * (bx - ax) + (py - ay) * (by - ay))
                                / ((bx - ax) * (bx - ax) + (by - ay) * (by - ay))));
            dx = px - (ax + (bx - ax) * t);
            dy = py - (ay + (by - ay) * t)
        in Fin (sqrt (dx * dx + dy * dy)))"
proof -
  define q where "q = (bx - ax) * (bx - ax) + (by - ay) * (by - ay)"
  have "q \<noteq> 0"
    using assms by (auto simp add: q_def sum_squares_eq_zero_iff)
  then show ?thesis
    by (simp add: distPointToSegment_def Let_def q_def[symmetric])
qed

text \<open>
  Claim C9. The division of \<open>normalize\<close> is guarded, the projection of
  \<open>distPointToSegment\<close> is not: on a segment of length zero \<open>proj / abLenSq\<close> is
  \<open>0 / 0\<close>, and the distance, the normal and the closest point all come out \<open>NaN\<close>.
\<close>

theorem distPointToSegment_zero_length:
  "distPointToSegment (V2 3 4) (V2 0 0) (V2 0 0)
     = \<lparr>seg_dist = NaN, seg_normal = \<lparr>vx = NaN, vy = NaN\<rparr>, seg_closest = \<lparr>vx = NaN, vy = NaN\<rparr>\<rparr>"
  by (rule distPointToSegment_degenerate)

section \<open>Wall collisions\<close>








lemma fold_idle: "(\<And>x. x \<in> set xs \<Longrightarrow> f x s = s) \<Longrightarrow> fold f xs s = s"
  by (induction xs) simp_all

lemma wallStep_miss:
  "\<not> js_lt (seg_dist (distPointToSegment (pos ball) p1 p2)) (radius ball)
     \<Longrightarrow> wallStep rest p1 p2 ball = ball"
  by (simp add: wallStep_def Let_def)

lemma wallCollide_idle:
  assumes "\<And>i. i < length vs \<Longrightarrow>
     \<not> js_lt (seg_dist (distPointToSegment (pos ball) (vs ! i) (vs ! ((i + 1) mod length vs))))
              (radius ball)"
  shows "wallCollide rest vs ball = ball"
  unfolding wallCollide_def by (rule fold_idle) (use assms in \<open>simp add: wallStep_miss\<close>)

lemma houseLoop_eq:
  "houseLoop = [V2 0 (- 450), V2 360 (- 180), V2 360 450, V2 (- 360) 450, V2 (- 360) (- 180)]"
  by (simp add: houseLoop_def generateShape_def normalizedPoints_def rotatePoint_def Let_def V2_def mult_def js_sub_def)

lemma resting_clear:
  "\<forall>ball \<in> set restingBalls. \<forall>i < length houseLoop.
     \<not> js_lt (seg_dist (distPointToSegment (pos ball) (houseLoop ! i) (houseLoop ! ((i + 1) mod length houseLoop))))
              (radius ball)"
  by (simp add: restingBalls_def houseLoop_eq All_less_Suc seg_dist_V2 Let_def sqrt_less_iff_sq)

text \<open>
  Claim C7. If no ball is closer to any edge of the loop than its radius, the wall loop
  changes no ball.
\<close>

theorem boundary_phase_idempotent:
  assumes "\<forall>ball \<in> set bs. \<forall>i < length vs.
     \<not> js_lt (seg_dist (distPointToSegment (pos ball) (vs ! i) (vs ! ((i + 1) mod length vs))))
              (radius ball)"
  shows "map (wallCollide rest vs) bs = bs"
  using assms by (simp add: map_idI wallCollide_idle)

theorem boundary_phase_idempotent_witness:
  "map (wallCollide (Fin 0.8) houseLoop) restingBalls = restingBalls"
  using boundary_phase_idempotent [OF resting_clear] .

section \<open>Integration\<close>

lemma js_or_Fin [simp]: "js_or (Fin a) (Fin d) = Fin (if a = 0 then d else a)"
  by (simp add: js_or_def)

lemma integrate_V2:
  assumes "gravity config = Fin g" "gravityMultiplier gs = Fin gm" "timeScale gs = Fin t"
    "friction config = Fin f" "vel ball = V2 u v" "pos ball = V2 a b"
  shows "integrate config gs ball =
     ball\<lparr>vel := V2 (u * (1 - (if f = 0 then 0.001 else f) * t))
                    ((v + g * gm * t) * (1 - (if f = 0 then 0.001 else f) * t)),
          pos := V2 (a + u * (1 - (if f = 0 then 0.001 else f) * t) * t)
                    (b + (v + g * gm * t) * (1 - (if f = 0 then 0.001 else f) * t) * t)\<rparr>"
  by (simp add: integrate_def frictionFactor_def Let_def assms) (simp add: V2_def mult_def add_def)

text \<open>
  Claim C4, as amended. The decay factor of the friction line is
  \<open>1 - (friction || 0.001) * timeScale\<close> as computed, with no clamp: it is negative exactly
  when the product exceeds 1, and the velocity is multiplied by it whatever its sign.
\<close>

theorem frictionFactor_unclamped:
  assumes "friction config = Fin f" and "timeScale gs = Fin t"
  shows "frictionFactor config gs = Fin (1 - (if f = 0 then 0.001 else f) * t)
       \<and> js_lt (frictionFactor config gs) (Fin 0) = (1 < (if f = 0 then 0.001 else f) * t)
       \<and> vel (integrate config gs ball)
           = mult ((vel ball)\<lparr>vy := js_add (vy (vel ball))
                      (js_mul (js_mul (gravity config) (gravityMultiplier gs)) (timeScale gs))\<rparr>)
                  (frictionFactor config gs)"
  by (simp add: frictionFactor_def integrate_def Let_def assms)

theorem frictionFactor_unclamped_witness:
  "friction houseConfig = Fin 0.001 \<and> timeScale defaultSettings = Fin 1
   \<and> frictionFactor houseConfig defaultSettings = Fin 0.999
   \<and> \<not> js_lt (frictionFactor houseConfig defaultSettings) (Fin 0)"
proof -
  have h: "friction houseConfig = Fin 0.001" "timeScale defaultSettings = Fin 1"
    by (simp_all add: houseConfig_def defaultSettings_def)
  from frictionFactor_unclamped [OF h] h show ?thesis by simp
qed

text \<open>
  With friction 0.5 and the speed slider at 3 the factor is \<open>-0.5\<close>, and a ball moving
  right at speed 2 moves left at speed 1 after the integration step.
\<close>

theorem frictionFactor_negative:
  "frictionFactor stickyConfig fastSettings = Fin (- 0.5)
   \<and> js_lt (frictionFactor stickyConfig fastSettings) (Fin 0)
   \<and> vel slidingBall = V2 2 0
   \<and> vel (integrate stickyConfig fastSettings slidingBall) = V2 (- 1) 0"
  by (simp add: frictionFactor_def integrate_def Let_def stickyConfig_def fastSettings_def slidingBall_def)
     (simp add: V2_def mult_def)

section \<open>Evaluating a tick\<close>

lemma less_sqrt_iff_sq: "0 \<le> y \<Longrightarrow> y < sqrt x \<longleftrightarrow> y * y < x"
  using real_sqrt_less_iff [of "y * y" x] by simp

lemma shapeRadius_1000: "shapeRadiusOf 1000 1000 = Fin 450"
  by (simp add: shapeRadiusOf_def)

lemma house_vertices_still:
  "generateShape (shapeType houseConfig) (vertexCount houseConfig) (Fin 450) \<lparr>vx = Fin 0, vy = Fin 0\<rparr>
     (Fin 0) = houseLoop"
  by (simp add: houseLoop_def houseConfig_def)

lemma pairPhase_two: "pairPhase [a, b] = (case resolvePair a b of (a', b') \<Rightarrow> [a', b'])"
  by (simp add: pairPhase_def pairStep_def split: prod.splits)

lemma stray_phases:
  "collisionPhases houseConfig stillSettings 1000 1000 strayState =
     \<lparr>balls = [\<lparr>ball_id = ''6-0'', pos = V2 5006.993 (- 2.7972), vel = V2 6.993 (- 2.7972),
                 radius = Fin 10, color = ''#58a6ff''\<rparr>,
               \<lparr>ball_id = ''6-1'', pos = V2 0 0.1998, vel = V2 0 0.1998, radius = Fin 10,
                 color = ''#39d353''\<rparr>],
      rotation = Fin 0\<rparr>"
proof -
  let ?farA = "\<lparr>ball_id = ''6-0'', pos = V2 5000 0, vel = V2 7 (- 3), radius = Fin 10,
                 color = ''#58a6ff''\<rparr>"
  let ?nearA = "\<lparr>ball_id = ''6-1'', pos = V2 0 0, vel = V2 0 0, radius = Fin 10,
                 color = ''#39d353''\<rparr>"
  let ?far = "\<lparr>ball_id = ''6-0'', pos = V2 5006.993 (- 2.7972), vel = V2 6.993 (- 2.7972),
                 radius = Fin 10, color = ''#58a6ff''\<rparr>"
  let ?near = "\<lparr>ball_id = ''6-1'', pos = V2 0 0.1998, vel = V2 0 0.1998, radius = Fin 10,
                 color = ''#39d353''\<rparr>"
  have b: "balls strayState = [?farA, ?nearA]" and r: "rotation strayState = Fin 0"
    by (simp_all add: strayState_def)
  have i: "integrate houseConfig stillSettings ?farA = ?far"
          "integrate houseConfig stillSettings ?nearA = ?near"
    by (simp_all add: integrate_V2 [where g = "0.2" and gm = 1 and t = 1 and f = "0.001"]
          houseConfig_def stillSettings_def)
  have "\<forall>i < length houseLoop.
     \<not> js_lt (seg_dist (distPointToSegment (pos ?far) (houseLoop ! i) (houseLoop ! ((i + 1) mod length houseLoop))))
              (radius ?far)"
    by (simp add: houseLoop_eq All_less_Suc seg_dist_V2 Let_def sqrt_less_iff_sq)
  then have w1: "wallCollide rest houseLoop ?far = ?far" for rest
    by (simp add: wallCollide_idle)
  have "\<forall>i < length houseLoop.
     \<not> js_lt (seg_dist (distPointToSegment (pos ?near) (houseLoop ! i) (houseLoop ! ((i + 1) mod length houseLoop))))
              (radius ?near)"
    by (simp add: houseLoop_eq All_less_Suc seg_dist_V2 Let_def sqrt_less_iff_sq)
  then have w2: "wallCollide rest houseLoop ?near = ?near" for rest
    by (simp add: wallCollide_idle)
  have p: "pairPhase [?far, ?near] = [?far, ?near]"
    by (simp add: pairPhase_two resolvePair_def Let_def sqrt_less_iff_sq)
  have a: "advanceRotation houseConfig stillSettings (Fin 0) = Fin 0"
    by (simp add: advanceRotation_def houseConfig_def stillSettings_def)
  show ?thesis
    unfolding collisionPhases_def Let_def shapeRadius_1000 b r house_vertices_still list.map
      i w1 w2 p a by (rule refl)
qed

lemma safetyReset_cases:
  "(js_lt (js_add R m) (mag (pos ball)) \<longrightarrow>
      pos (safetyReset R m ball) = V2 0 0 \<and> vel (safetyReset R m ball) = V2 0 0)
   \<and> (\<not> js_lt (js_add R m) (mag (pos ball)) \<longrightarrow> safetyReset R m ball = ball)"
  by (simp add: safetyReset_def V2_def)

lemma legacyWallStep_origin:
  "legacyWallStep rest (V2 0 0) (V2 0 0)
      \<lparr>ball_id = n, pos = V2 a b, vel = V2 u v, radius = Fin r, color = c\<rparr>
     = \<lparr>ball_id = n, pos = V2 a b, vel = V2 u v, radius = Fin r, color = c\<rparr>"
  by (simp add: legacyWallStep_def Let_def normalize_V2 V2_def[symmetric])

lemma legacy_vertices_zero:
  "legacyVertices squareConfig (Fin 0) (Fin rot) = [V2 0 0, V2 0 0, V2 0 0, V2 0 0]"
  by (simp add: legacyVertices_def squareConfig_def int_or_def generatePolygon_def Let_def
        eval_nat_numeral V2_def)

lemma legacyWallCollide_origin:
  "legacyWallCollide rest [V2 0 0, V2 0 0, V2 0 0, V2 0 0]
      \<lparr>ball_id = n, pos = V2 a b, vel = V2 u v, radius = Fin r, color = c\<rparr>
     = \<lparr>ball_id = n, pos = V2 a b, vel = V2 u v, radius = Fin r, color = c\<rparr>"
  unfolding legacyWallCollide_def
  by (rule fold_idle) (simp add: less_Suc_eq legacyWallStep_origin, auto simp add: legacyWallStep_origin)

lemma stray_legacy_phases:
  "legacyCollisionPhases squareConfig defaultSettings 0 0 strayState =
     \<lparr>balls = [\<lparr>ball_id = ''6-0'', pos = V2 5006.993 (- 2.6973), vel = V2 6.993 (- 2.6973),
                 radius = Fin 10, color = ''#58a6ff''\<rparr>,
               \<lparr>ball_id = ''6-1'', pos = V2 0 0.2997, vel = V2 0 0.2997, radius = Fin 10,
                 color = ''#39d353''\<rparr>],
      rotation = Fin 0.005\<rparr>"
proof -
  let ?farA = "\<lparr>ball_id = ''6-0'', pos = V2 5000 0, vel = V2 7 (- 3), radius = Fin 10,
                 color = ''#58a6ff''\<rparr>"
  let ?nearA = "\<lparr>ball_id = ''6-1'', pos = V2 0 0, vel = V2 0 0, radius = Fin 10,
                 color = ''#39d353''\<rparr>"
  let ?far = "\<lparr>ball_id = ''6-0'', pos = V2 5006.993 (- 2.6973), vel = V2 6.993 (- 2.6973),
                 radius = Fin 10, color = ''#58a6ff''\<rparr>"
  let ?near = "\<lparr>ball_id = ''6-1'', pos = V2 0 0.2997, vel = V2 0 0.2997, radius = Fin 10,
                 color = ''#39d353''\<rparr>"
  have b: "balls strayState = [?farA, ?nearA]" and r: "rotation strayState = Fin 0"
    by (simp_all add: strayState_def)
  have i: "integrate squareConfig defaultSettings ?farA = ?far"
          "integrate squareConfig defaultSettings ?nearA = ?near"
    by (simp_all add: integrate_V2 [where g = "0.3" and gm = 1 and t = 1 and f = "0.001"]
          squareConfig_def defaultSettings_def)
  have p: "pairPhase [?far, ?near] = [?far, ?near]"
    by (simp add: pairPhase_two resolvePair_def Let_def sqrt_less_iff_sq)
  have a: "advanceRotation squareConfig defaultSettings (Fin 0) = Fin 0.005"
    by (simp add: advanceRotation_def squareConfig_def defaultSettings_def)
  have z: "shapeRadiusOf 0 0 = Fin 0" by (simp add: shapeRadiusOf_def)
  show ?thesis
    unfolding legacyCollisionPhases_def Let_def z b r a legacy_vertices_zero list.map
      i legacyWallCollide_origin p by (rule refl)
qed

text \<open>
  Claim C2. At the end of a tick, every ball whose distance from the origin after the two
  collision phases exceeds the shape radius plus the margin is at the origin with velocity
  zero, whatever its velocity was, and every other ball is as the collision phases left it.
  The margin is 200 in the segment-distance Canvas and 100 in the edge-normal one.
\<close>

theorem runaway_recovery:
  "(let s1 = collisionPhases config gs width height state;
        s2 = updatePhysics config gs width height state;
        limit = js_add (shapeRadiusOf width height) (Fin 200)
    in length (balls s2) = length (balls s1)
     \<and> (\<forall>i < length (balls s1).
           (js_lt limit (mag (pos (balls s1 ! i))) \<longrightarrow>
              pos (balls s2 ! i) = V2 0 0 \<and> vel (balls s2 ! i) = V2 0 0)
         \<and> (\<not> js_lt limit (mag (pos (balls s1 ! i))) \<longrightarrow> balls s2 ! i = balls s1 ! i)))
   \<and> (let s1 = legacyCollisionPhases config gs width height state;
          s2 = legacyUpdatePhysics config gs width height state;
          limit = js_add (shapeRadiusOf width height) (Fin 100)
      in length (balls s2) = length (balls s1)
       \<and> (\<forall>i < length (balls s1).
             (js_lt limit (mag (pos (balls s1 ! i))) \<longrightarrow>
                pos (balls s2 ! i) = V2 0 0 \<and> vel (balls s2 ! i) = V2 0 0)
           \<and> (\<not> js_lt limit (mag (pos (balls s1 ! i))) \<longrightarrow> balls s2 ! i = balls s1 ! i)))"
  using safetyReset_cases by (simp add: updatePhysics_def legacyUpdatePhysics_def Let_def)

theorem runaway_recovery_witness:
  "pos (balls (updatePhysics houseConfig stillSettings 1000 1000 strayState) ! 0) = V2 0 0
   \<and> vel (balls (updatePhysics houseConfig stillSettings 1000 1000 strayState) ! 0) = V2 0 0
   \<and> balls (updatePhysics houseConfig stillSettings 1000 1000 strayState) ! 1
       = balls (collisionPhases houseConfig stillSettings 1000 1000 strayState) ! 1
   \<and> vel (balls (collisionPhases houseConfig stillSettings 1000 1000 strayState) ! 0)
       = V2 6.993 (- 2.7972)
   \<and> pos (balls (legacyUpdatePhysics squareConfig defaultSettings 0 0 strayState) ! 0) = V2 0 0
   \<and> vel (balls (legacyUpdatePhysics squareConfig defaultSettings 0 0 strayState) ! 0) = V2 0 0
   \<and> balls (legacyUpdatePhysics squareConfig defaultSettings 0 0 strayState) ! 1
       = balls (legacyCollisionPhases squareConfig defaultSettings 0 0 strayState) ! 1"
proof -
  have far: "js_lt (js_add (shapeRadiusOf 1000 1000) (Fin 200))
      (mag (pos (balls (collisionPhases houseConfig stillSettings 1000 1000 strayState) ! 0)))"
    and near: "\<not> js_lt (js_add (shapeRadiusOf 1000 1000) (Fin 200))
      (mag (pos (balls (collisionPhases houseConfig stillSettings 1000 1000 strayState) ! 1)))"
    and len: "length (balls (collisionPhases houseConfig stillSettings 1000 1000 strayState)) = 2"
    by (simp_all add: stray_phases shapeRadius_1000 less_sqrt_iff_sq)
  have lfar: "js_lt (js_add (shapeRadiusOf 0 0) (Fin 100))
      (mag (pos (balls (legacyCollisionPhases squareConfig defaultSettings 0 0 strayState) ! 0)))"
    and lnear: "\<not> js_lt (js_add (shapeRadiusOf 0 0) (Fin 100))
      (mag (pos (balls (legacyCollisionPhases squareConfig defaultSettings 0 0 strayState) ! 1)))"
    and llen: "length (balls (legacyCollisionPhases squareConfig defaultSettings 0 0 strayState)) = 2"
    by (simp_all add: stray_legacy_phases shapeRadiusOf_def less_sqrt_iff_sq)
  have v: "vel (balls (collisionPhases houseConfig stillSettings 1000 1000 strayState) ! 0)
       = V2 6.993 (- 2.7972)"
    by (simp add: stray_phases)
  note rr = runaway_recovery [of houseConfig stillSettings 1000 1000 strayState, unfolded Let_def]
  note lr = runaway_recovery [of squareConfig defaultSettings 0 0 strayState, unfolded Let_def]
  have "(0::nat) < 2" "(1::nat) < 2" by simp_all
  with rr lr far near len lfar lnear llen v show ?thesis by metis
qed

section \<open>A paused tick\<close>

lemma pairStep_idle:
  "resolvePair (bs ! i) (bs ! j) = (bs ! i, bs ! j) \<Longrightarrow> pairStep i j bs = bs"
  by (simp add: pairStep_def)

lemma resolvePair_apart:
  "\<not> js_lt (mag (sub (pos b) (pos a))) (js_add (radius a) (radius b)) \<Longrightarrow> resolvePair a b = (a, b)"
  by (simp add: resolvePair_def Let_def)









section \<open>Star vertices\<close>

lemma circle_point_length:
  fixes r t :: real
  assumes "0 \<le> r"
  shows "sqrt (r * cos t * (r * cos t) + r * sin t * (r * sin t)) = r"
proof -
  have "r * cos t * (r * cos t) + r * sin t * (r * sin t)
      = r * r * (cos t * cos t + sin t * sin t)"
    by algebra
  then have "r * cos t * (r * cos t) + r * sin t * (r * sin t) = r * r"
    by (simp only: sin_cos_squared_add3 mult_1_right)
  then show ?thesis using assms by (simp add: sqrt_eqI)
qed

lemma generateStar_length: "length (generateStar p ro ri c rot) = nat (p * 2)"
  by (simp add: generateStar_def)

lemma generateStar_nth:
  assumes "i < nat (p * 2)"
  shows "generateStar p (Fin ro) (Fin ri) (V2 cx cy) (Fin rot) ! i
       = V2 (cx + (if even i then ro else ri) * cos (real i * pi / real_of_int p + rot))
            (cy + (if even i then ro else ri) * sin (real i * pi / real_of_int p + rot))"
proof -
  have "p \<noteq> 0" using assms by auto
  then show ?thesis using assms
    by (simp add: generateStar_def Let_def V2_def even_iff_mod_2_eq_zero)
qed

lemma generateStar_dist:
  assumes "i < nat (p * 2)" "0 \<le> ro" "0 \<le> ri"
  shows "mag (sub (generateStar p (Fin ro) (Fin ri) (V2 cx cy) (Fin rot) ! i) (V2 cx cy))
       = Fin (if even i then ro else ri)"
  using assms by (simp add: generateStar_nth circle_point_length)

text \<open>
  Claim C8, as amended. For \<open>p \<ge> 1\<close> points and a radius \<open>r \<ge> 0\<close>, the star of
  \<open>generateShape\<close> has \<open>2p\<close> vertices, alternately at distance \<open>r\<close> and
  \<open>0.45 * r\<close> from the centre. The edge-normal Canvas builds its star with the inner
  radius \<open>0.4 * r\<close>: its \<open>2p\<close> vertices are alternately at distance \<open>r\<close> and
  \<open>0.4 * r\<close> from the origin.
\<close>

theorem star_vertices:
  assumes "1 \<le> p" and "0 \<le> r"
    and "shapeType config = ''star''" and "vertexCount config = p"
  shows "(let vs = generateShape ''star'' p (Fin r) (V2 cx cy) (Fin rot);
              ws = legacyVertices config (Fin r) (Fin rot)
          in length vs = nat (2 * p)
           \<and> (\<forall>i < length vs. mag (sub (vs ! i) (V2 cx cy)) = Fin (if even i then r else 0.45 * r))
           \<and> length ws = nat (2 * p)
           \<and> (\<forall>i < length ws. mag (sub (ws ! i) (V2 0 0)) = Fin (if even i then r else 0.4 * r)))"
proof -
  have p0: "int_or p 5 = p" using assms(1) by (simp add: int_or_def)
  have vs: "generateShape ''star'' p (Fin r) (V2 cx cy) (Fin rot)
      = generateStar p (Fin r) (Fin (r * 0.45)) (V2 cx cy) (Fin rot)"
    by (simp add: generateShape_def p0)
  have ws: "legacyVertices config (Fin r) (Fin rot)
      = generateStar p (Fin r) (Fin (r * 0.4)) (V2 0 0) (Fin rot)"
    by (simp add: legacyVertices_def assms(3,4) p0 V2_def)
  have "0 \<le> r * 0.45" "0 \<le> r * 0.4" using assms(2) by simp_all
  then show ?thesis
    unfolding Let_def vs ws using assms(2)
    by (simp add: generateStar_length generateStar_dist mult.commute)
qed

theorem star_vertices_witness:
  "shapeType starConfig = ''star'' \<and> vertexCount starConfig = 5
   \<and> length (generateShape ''star'' 5 (Fin 450) (V2 500 500) (Fin 0.3)) = 10
   \<and> mag (sub (generateShape ''star'' 5 (Fin 450) (V2 500 500) (Fin 0.3) ! 2) (V2 500 500)) = Fin 450
   \<and> mag (sub (generateShape ''star'' 5 (Fin 450) (V2 500 500) (Fin 0.3) ! 3) (V2 500 500)) = Fin 202.5
   \<and> length (legacyVertices starConfig (Fin 450) (Fin 0.3)) = 10
   \<and> mag (sub (legacyVertices starConfig (Fin 450) (Fin 0.3) ! 3) (V2 0 0)) = Fin 180"
proof -
  have c: "shapeType starConfig = ''star''" "vertexCount starConfig = 5"
    by (simp_all add: starConfig_def)
  have h: "(1::int) \<le> 5" "(0::real) \<le> 450" by simp_all
  note s = star_vertices [OF h c, where cx = 500 and cy = 500 and rot = "0.3", unfolded Let_def]
  from s have len: "length (generateShape ''star'' 5 (Fin 450) (V2 500 500) (Fin 0.3)) = 10"
    "length (legacyVertices starConfig (Fin 450) (Fin 0.3)) = 10"
    by simp_all
  have "(2::nat) < 10" "(3::nat) < 10" by simp_all
  with s len have
    "mag (sub (generateShape ''star'' 5 (Fin 450) (V2 500 500) (Fin 0.3) ! 2) (V2 500 500))
       = Fin (if even (2::nat) then 450 else 0.45 * 450)"
    "mag (sub (generateShape ''star'' 5 (Fin 450) (V2 500 500) (Fin 0.3) ! 3) (V2 500 500))
       = Fin (if even (3::nat) then 450 else 0.45 * 450)"
    "mag (sub (legacyVertices starConfig (Fin 450) (Fin 0.3) ! 3) (V2 0 0))
       = Fin (if even (3::nat) then 450 else 0.4 * 450)"
    by metis+
  then show ?thesis using c len by simp
qed

text \<open>
  For the same five-pointed star of radius 450 the first inner vertex is at distance 202.5
  in one Canvas and at distance 180 in the other.
\<close>

theorem star_inner_ratios_differ:
  "mag (sub (generateShape (shapeType starConfig) (vertexCount starConfig) (Fin 450)
               \<lparr>vx = Fin 0, vy = Fin 0\<rparr> (Fin 0) ! 1) (V2 0 0)) = Fin 202.5
   \<and> mag (sub (legacyVertices starConfig (Fin 450) (Fin 0) ! 1) (V2 0 0)) = Fin 180"
proof -
  have "(1::nat) < nat (5 * 2)" by simp
  then have "mag (sub (generateStar 5 (Fin 450) (Fin ri) (V2 0 0) (Fin 0) ! 1) (V2 0 0))
      = Fin (if even (1::nat) then 450 else ri)" if "0 \<le> ri" for ri
    using that by (intro generateStar_dist) simp_all
  from this [of "202.5"] this [of 180] show ?thesis
    by (simp add: generateShape_def legacyVertices_def starConfig_def int_or_def V2_def[symmetric])
qed

section \<open>Non-finite state\<close>

lemma fold_invariant:
  assumes "P s" and "\<And>x s. x \<in> set xs \<Longrightarrow> P s \<Longrightarrow> P (f x s)"
  shows "P (fold f xs s)"
  using assms by (induction xs arbitrary: s) simp_all

lemma pairStep_length: "length (pairStep i j bs) = length bs"
  by (simp add: pairStep_def split: prod.splits)

lemma mag_NaN: "vx v = NaN \<or> vy v = NaN \<Longrightarrow> mag v = NaN"
  by (auto simp add: mag_def)

lemma js_lt_NaN [simp]: "js_lt a NaN = False"
  by (cases a) simp_all

lemma safetyReset_NaN: "vx (pos ball) = NaN \<or> vy (pos ball) = NaN \<Longrightarrow> safetyReset R m ball = ball"
  by (simp add: safetyReset_def mag_NaN)

lemma pairPhase_single: "pairPhase [ball] = [ball]"
  by (simp add: pairPhase_def)

lemma js_sub_NaN [simp]: "js_sub a NaN = NaN" "js_sub NaN a = NaN"
  by (simp_all add: js_sub_def)

lemma sub_NaN_mag:
  "vx u = NaN \<or> vy u = NaN \<or> vx w = NaN \<or> vy w = NaN \<Longrightarrow> mag (sub u w) = NaN"
  by (auto simp add: sub_def intro: mag_NaN)

lemma seg_dist_NaN_pos:
  assumes "vx p = NaN \<or> vy p = NaN"
  shows "seg_dist (distPointToSegment p a b) = NaN"
proof -
  have "dot (sub p a) (sub b a) = NaN"
    using assms by (auto simp add: dot_def sub_def)
  then show ?thesis
    by (simp add: distPointToSegment_def Let_def js_min_def js_max_def add_def sub_NaN_mag)
qed

lemma integrate_nan_position: "nan_position ball \<Longrightarrow> nan_position (integrate config gs ball)"
  by (auto simp add: nan_position_def integrate_def Let_def add_def)

lemma wallCollide_nan_position: "nan_position ball \<Longrightarrow> wallCollide rest vs ball = ball"
  by (rule wallCollide_idle) (simp add: nan_position_def seg_dist_NaN_pos)

lemma resolvePair_nan_position:
  "nan_position a \<or> nan_position b \<Longrightarrow> resolvePair a b = (a, b)"
  by (rule resolvePair_apart) (auto simp add: nan_position_def sub_NaN_mag)

lemma pairStep_nan_position:
  assumes "nan_position (cs ! i)"
  shows "pairStep j k cs ! i = cs ! i"
proof (cases "i = j \<or> i = k")
  case True
  then have "resolvePair (cs ! j) (cs ! k) = (cs ! j, cs ! k)"
    using assms by (auto intro: resolvePair_nan_position)
  then show ?thesis by (simp add: pairStep_idle)
next
  case False
  then show ?thesis by (simp add: pairStep_def split: prod.splits)
qed

lemma pairPhase_nan_position:
  assumes "nan_position (bs ! i)"
  shows "pairPhase bs ! i = bs ! i"
proof -
  define Q where "Q cs \<longleftrightarrow> cs ! i = bs ! i" for cs
  have step: "Q (pairStep j k cs)" if "Q cs" for j k cs
    using that assms by (simp add: Q_def pairStep_nan_position)
  have inner: "Q (fold (\<lambda>k. pairStep j k) ks cs)" if "Q cs" for j ks cs
    by (rule fold_invariant [of Q]) (simp_all add: that step)
  have "Q (fold (\<lambda>j. fold (\<lambda>k. pairStep j k) [j + 1..<length bs]) [0..<length bs] bs)"
  proof (rule fold_invariant [of Q])
    show "Q bs" by (simp add: Q_def)
  next
    fix j cs assume "Q cs"
    then show "Q (fold (\<lambda>k. pairStep j k) [j + 1..<length bs] cs)" by (rule inner)
  qed
  then show ?thesis by (simp add: pairPhase_def Q_def)
qed

lemma safetyReset_infinite_position:
  assumes "infinite_position ball" "is_finite R" "is_finite m"
  shows "pos (safetyReset R m ball) = V2 0 0 \<and> vel (safetyReset R m ball) = V2 0 0"
proof -
  obtain r where r: "js_add R m = Fin r" using assms(2,3) by (auto simp: is_finite_iff)
  have "mag (pos ball) = PosInf"
    using assms(1)
    by (cases "vx (pos ball)"; cases "vy (pos ball)")
       (simp_all add: infinite_position_def nan_position_def is_finite_def mag_def)
  then show ?thesis by (simp add: safetyReset_def r V2_def)
qed

text \<open>
  Claim C3, as amended. The code has no check for finite values. A ball whose position has a
  \<open>NaN\<close> coordinate at the start of a tick is integrated and nothing else: the wall loop,
  the ball-to-ball loop and the safety reset all leave it as it is, so its position still
  has a \<open>NaN\<close> coordinate at the end of the tick. The safety reset does take a ball whose
  position has an infinite coordinate and no \<open>NaN\<close> coordinate to the origin with velocity
  zero. These facts rest on the special values alone, not on exact arithmetic.
\<close>

theorem nan_position_persists:
  assumes "i < length (balls state)" and "nan_position (balls state ! i)"
  shows "balls (updatePhysics config gs width height state) ! i
           = integrate config gs (balls state ! i)
       \<and> nan_position (balls (updatePhysics config gs width height state) ! i)
       \<and> (nan_position lost \<longrightarrow> safetyReset R m lost = lost)
       \<and> (infinite_position far \<and> is_finite R \<and> is_finite m \<longrightarrow>
             pos (safetyReset R m far) = V2 0 0 \<and> vel (safetyReset R m far) = V2 0 0)"
proof -
  let ?rest = "js_mul (restitution config) (bouncinessMultiplier gs)"
  let ?vs = "generateShape (shapeType config) (vertexCount config) (shapeRadiusOf width height)
               \<lparr>vx = Fin 0, vy = Fin 0\<rparr> (advanceRotation config gs (rotation state))"
  let ?bs = "map (\<lambda>ball. wallCollide ?rest ?vs (integrate config gs ball)) (balls state)"
  let ?b = "integrate config gs (balls state ! i)"
  have n: "nan_position ?b" by (rule integrate_nan_position [OF assms(2)])
  have b1: "?bs ! i = ?b" using assms(1) by (simp add: wallCollide_nan_position [OF n])
  then have "pairPhase ?bs ! i = ?b" using n by (simp add: pairPhase_nan_position)
  then have c: "balls (collisionPhases config gs width height state) ! i = ?b"
    by (simp add: collisionPhases_def Let_def)
  have "length (pairPhase ?bs) = length ?bs"
    unfolding pairPhase_def
    by (rule fold_invariant [of "\<lambda>cs. length cs = length ?bs"], simp)
       (rule fold_invariant, simp_all add: pairStep_length)
  then have l: "i < length (balls (collisionPhases config gs width height state))"
    using assms(1) by (simp add: collisionPhases_def Let_def)
  have r: "safetyReset R' m' ?b = ?b" for R' m'
    using n by (simp add: safetyReset_NaN nan_position_def)
  have u: "balls (updatePhysics config gs width height state) ! i = ?b"
    using l by (simp add: updatePhysics_def Let_def c r)
  show ?thesis
    using u n safetyReset_NaN [of lost R m] safetyReset_infinite_position [of far R m]
    by (simp add: nan_position_def)
qed

theorem nan_position_persists_witness:
  "nan_position (balls lostState ! 1)
   \<and> balls (updatePhysics houseConfig defaultSettings 1000 1000 lostState) ! 1 = lostBall
   \<and> safetyReset (Fin 450) (Fin 200) lostBall = lostBall
   \<and> infinite_position escapedBall
   \<and> pos (safetyReset (Fin 450) (Fin 200) escapedBall) = V2 0 0
   \<and> vel (safetyReset (Fin 450) (Fin 200) escapedBall) = V2 0 0"
proof -
  have b: "balls lostState ! 1 = lostBall" and l: "1 < length (balls lostState)"
    by (simp_all add: lostState_def)
  have n: "nan_position lostBall" by (simp add: nan_position_def lostBall_def)
  have i: "integrate houseConfig defaultSettings lostBall = lostBall"
    by (simp add: integrate_def frictionFactor_def Let_def houseConfig_def defaultSettings_def
          lostBall_def mult_def add_def)
  have e: "infinite_position escapedBall"
    by (simp add: infinite_position_def nan_position_def escapedBall_def is_finite_def)
  have f: "is_finite (Fin 450)" "is_finite (Fin 200)" by (simp_all add: is_finite_def)
  from nan_position_persists [OF l, of houseConfig defaultSettings 1000 1000 lostBall
      "Fin 450" "Fin 200" escapedBall] b n i e f
  show ?thesis by simp
qed

text \<open>
  Under a configuration whose gravity is \<open>NaN\<close>, one tick takes a ball at rest in the
  centre to a position and a velocity with a \<open>NaN\<close> coordinate, and the safety reset
  leaves it there.
\<close>

theorem gravity_NaN_persists:
  "list_all finite_ball (balls centredState)
   \<and> balls (updatePhysics brokenConfig defaultSettings 1000 1000 centredState) = [lostBall]"
proof -
  have i: "map (integrate brokenConfig defaultSettings) (balls centredState) = [lostBall]"
    by (simp add: centredState_def integrate_def frictionFactor_def Let_def brokenConfig_def
          defaultSettings_def lostBall_def mult_def add_def V2_def)
  have w: "wallCollide rest vs lostBall = lostBall" for rest vs
    by (rule wallCollide_idle) (simp add: seg_dist_NaN_pos lostBall_def)
  have "map (\<lambda>ball. wallCollide rest vs (integrate brokenConfig defaultSettings ball))
          (balls centredState) = [lostBall]" for rest vs
    using i by (simp add: centredState_def w)
  then have "balls (collisionPhases brokenConfig defaultSettings 1000 1000 centredState) = [lostBall]"
    by (simp add: collisionPhases_def Let_def pairPhase_single)
  then have "balls (updatePhysics brokenConfig defaultSettings 1000 1000 centredState) = [lostBall]"
    by (simp add: updatePhysics_def Let_def safetyReset_NaN lostBall_def)
  moreover have "list_all finite_ball (balls centredState)"
    by (simp add: centredState_def finite_ball_def is_finite_def)
  ultimately show ?thesis by simp
qed

end
